theory Spec2Isabelle
  imports Complex_Main
begin

section \<open>Numbers and the vector library\<close>

text \<open>
  The controllers compute with JavaScript numbers. They are modelled as \<^typ>\<open>real\<close>:
  arithmetic is exact, there is no rounding, no infinity and no NaN. The code divides in two
  places: in \<open>normalize\<close>, whose guard against a zero length is written out below, and in
  \<open>applyMatrix4\<close>, where the divisor is 1 for the rotation matrices the code builds. So no
  result rests on HOL's convention \<open>x / 0 = 0\<close>.

  The types \<open>Vector3\<close>, \<open>Matrix4\<close> and \<open>Capsule\<close> belong to the three.js library, which the
  repository imports. The operations below are the library's methods that the controllers
  call, with mutation of \<open>this\<close> turned into a returned value.
\<close>

record Vector3 =
  vx :: real
  vy :: real
  vz :: real

text \<open>\<open>new THREE.Vector3(x, y, z)\<close>; without arguments the components are 0.\<close>

definition Vector3_new :: "real \<Rightarrow> real \<Rightarrow> real \<Rightarrow> Vector3" where
  "Vector3_new a b c = \<lparr>vx = a, vy = b, vz = c\<rparr>"

definition Vector3_zero :: Vector3 where
  "Vector3_zero = Vector3_new 0 0 0"

text \<open>\<open>add(v)\<close>, \<open>sub(v)\<close>, \<open>multiplyScalar(s)\<close>, \<open>addScaledVector(v, s)\<close>, \<open>dot(v)\<close>.\<close>

definition add :: "Vector3 \<Rightarrow> Vector3 \<Rightarrow> Vector3" where
  "add this v = \<lparr>vx = vx this + vx v, vy = vy this + vy v, vz = vz this + vz v\<rparr>"

definition sub :: "Vector3 \<Rightarrow> Vector3 \<Rightarrow> Vector3" where
  "sub this v = \<lparr>vx = vx this - vx v, vy = vy this - vy v, vz = vz this - vz v\<rparr>"

definition multiplyScalar :: "Vector3 \<Rightarrow> real \<Rightarrow> Vector3" where
  "multiplyScalar this s = \<lparr>vx = vx this * s, vy = vy this * s, vz = vz this * s\<rparr>"

definition addScaledVector :: "Vector3 \<Rightarrow> Vector3 \<Rightarrow> real \<Rightarrow> Vector3" where
  "addScaledVector this v s =
     \<lparr>vx = vx this + vx v * s, vy = vy this + vy v * s, vz = vz this + vz v * s\<rparr>"

definition dot :: "Vector3 \<Rightarrow> Vector3 \<Rightarrow> real" where
  "dot this v = vx this * vx v + vy this * vy v + vz this * vz v"

text \<open>\<open>cross(v)\<close> is \<open>crossVectors(this, v)\<close>.\<close>

definition cross :: "Vector3 \<Rightarrow> Vector3 \<Rightarrow> Vector3" where
  "cross this v =
     \<lparr>vx = vy this * vz v - vz this * vy v,
      vy = vz this * vx v - vx this * vz v,
      vz = vx this * vy v - vy this * vx v\<rparr>"

text \<open>\<open>length()\<close> is the Euclidean norm.\<close>

definition vlength :: "Vector3 \<Rightarrow> real" where
  "vlength this = sqrt (vx this * vx this + vy this * vy this + vz this * vz this)"

text \<open>
  \<open>normalize()\<close> is \<open>this.divideScalar(this.length() || 1)\<close> and \<open>divideScalar(s)\<close> is
  \<open>this.multiplyScalar(1 / s)\<close>. The divisor of \<open>normalize\<close> is a definition of its own, so
  that a theorem can say that it is not zero.
\<close>

definition divideScalar :: "Vector3 \<Rightarrow> real \<Rightarrow> Vector3" where
  "divideScalar this s = multiplyScalar this (1 / s)"

definition normalize_divisor :: "Vector3 \<Rightarrow> real" where
  "normalize_divisor this = (if vlength this = 0 then 1 else vlength this)"

definition normalize_v :: "Vector3 \<Rightarrow> Vector3" where
  "normalize_v this = divideScalar this (normalize_divisor this)"

text \<open>
  A \<open>Matrix4\<close> is its array \<open>elements\<close> of 16 numbers in column-major order.
  \<open>makeRotationY(theta)\<close> calls \<open>set\<close> with the rows
  \<open>(c, 0, s, 0)\<close>, \<open>(0, 1, 0, 0)\<close>, \<open>(-s, 0, c, 0)\<close>, \<open>(0, 0, 0, 1)\<close>.
\<close>

type_synonym Matrix4 = "real list"

definition makeRotationY :: "real \<Rightarrow> Matrix4" where
  "makeRotationY theta =
     (let c = cos theta; s = sin theta
      in [c, 0, - s, 0,
          0, 1, 0, 0,
          s, 0, c, 0,
          0, 0, 0, 1])"

text \<open>
  \<open>applyMatrix4(m)\<close> multiplies by the upper three rows and divides by the fourth
  (\<open>w = 1 / (e[3] x + e[7] y + e[11] z + e[15])\<close>).
\<close>

definition applyMatrix4 :: "Vector3 \<Rightarrow> Matrix4 \<Rightarrow> Vector3" where
  "applyMatrix4 this e =
     (let x = vx this; y = vy this; z = vz this;
          w = 1 / (e ! 3 * x + e ! 7 * y + e ! 11 * z + e ! 15)
      in \<lparr>vx = (e ! 0 * x + e ! 4 * y + e ! 8 * z + e ! 12) * w,
          vy = (e ! 1 * x + e ! 5 * y + e ! 9 * z + e ! 13) * w,
          vz = (e ! 2 * x + e ! 6 * y + e ! 10 * z + e ! 14) * w\<rparr>)"

text \<open>A capsule is a segment and a radius; \<open>translate(v)\<close> adds \<open>v\<close> to both end points.\<close>

record Capsule =
  c_start :: Vector3
  c_end :: Vector3
  radius :: real

definition Capsule_translate :: "Capsule \<Rightarrow> Vector3 \<Rightarrow> Capsule" where
  "Capsule_translate c v = c\<lparr>c_start := add (c_start c) v, c_end := add (c_end c) v\<rparr>"

text \<open>
  \<open>Octree.capsuleIntersect(capsule)\<close> returns \<open>false\<close> or an object with a contact normal and
  a penetration depth. The world geometry is outside the repository: an octree is modelled
  as its intersection query.
\<close>

record Hit =
  normal :: Vector3
  depth :: real

type_synonym Octree = "Capsule \<Rightarrow> Hit option"

section \<open>The camera-driven PlayerModel\<close>

text \<open>
  \<open>src/scenes/gameCameraDriven/PlayerModel.ts\<close>. The render mesh (\<open>player\<close>), the scene and
  the loader are write-only outputs of the physics and are left out.
\<close>

record PlayerModel =
  playerCollider :: Capsule
  playerVelocity :: Vector3
  playerOnFloor :: bool
  groundSpeed :: real
  airSpeed :: real
  jumpForce :: real
  dampingFactor :: real

definition PlayerModel_new :: PlayerModel where
  "PlayerModel_new =
     \<lparr>playerCollider =
        \<lparr>c_start = Vector3_new 0 0 0, c_end = Vector3_new 0 (18 / 10) 0, radius = 35 / 100\<rparr>,
      playerVelocity = Vector3_zero,
      playerOnFloor = False,
      groundSpeed = 25,
      airSpeed = 8,
      jumpForce = 15,
      dampingFactor = 4\<rparr>"

definition translate_cd :: "Vector3 \<Rightarrow> PlayerModel \<Rightarrow> PlayerModel" where
  "translate_cd vec3 m = m\<lparr>playerCollider := Capsule_translate (playerCollider m) vec3\<rparr>"

definition checkCollisions_cd :: "Octree \<Rightarrow> PlayerModel \<Rightarrow> PlayerModel" where
  "checkCollisions_cd worldOctree m =
     (let result = worldOctree (playerCollider m);
          m1 = m\<lparr>playerOnFloor := False\<rparr>
      in case result of
           None \<Rightarrow> m1
         | Some r \<Rightarrow>
             (let m2 = m1\<lparr>playerOnFloor := (vy (normal r) > 0)\<rparr>;
                  m3 = (if \<not> playerOnFloor m2
                        then m2\<lparr>playerVelocity :=
                               addScaledVector (playerVelocity m2) (normal r)
                                 (- dot (normal r) (playerVelocity m2))\<rparr>
                        else m2)
              in if depth r \<ge> 1 / 10 ^ 10
                 then translate_cd (multiplyScalar (normal r) (depth r)) m3
                 else m3))"

definition updatePhysics_cd :: "real \<Rightarrow> real \<Rightarrow> PlayerModel \<Rightarrow> PlayerModel" where
  "updatePhysics_cd deltaTime gravity m =
     (let damping = exp (- dampingFactor m * deltaTime) - 1;
          (m1, damping1) =
            (if \<not> playerOnFloor m
             then (m\<lparr>playerVelocity :=
                       (playerVelocity m)\<lparr>vy := vy (playerVelocity m) - gravity * deltaTime\<rparr>\<rparr>,
                   damping * (1 / 10))
             else (m, damping));
          m2 = m1\<lparr>playerVelocity :=
                    addScaledVector (playerVelocity m1) (playerVelocity m1) damping1\<rparr>;
          deltaPosition = multiplyScalar (playerVelocity m2) deltaTime
      in translate_cd deltaPosition m2)"

definition resetPosition_cd :: "PlayerModel \<Rightarrow> PlayerModel" where
  "resetPosition_cd m =
     m\<lparr>playerCollider :=
         \<lparr>c_start = Vector3_new 0 0 0, c_end = Vector3_new 0 (18 / 10) 0, radius = 35 / 100\<rparr>,
       playerVelocity := Vector3_new 0 0 0\<rparr>"

definition executeForwardMovement_cd :: "real \<Rightarrow> Vector3 \<Rightarrow> PlayerModel \<Rightarrow> PlayerModel" where
  "executeForwardMovement_cd deltaTime direction m =
     (let speedDelta = deltaTime * (if playerOnFloor m then groundSpeed m else airSpeed m);
          forwardVector = normalize_v (direction\<lparr>vy := 0\<rparr>)
      in m\<lparr>playerVelocity := add (playerVelocity m) (multiplyScalar forwardVector speedDelta)\<rparr>)"

definition executeBackwardMovement_cd :: "real \<Rightarrow> Vector3 \<Rightarrow> PlayerModel \<Rightarrow> PlayerModel" where
  "executeBackwardMovement_cd deltaTime direction m =
     (let speedDelta = deltaTime * (if playerOnFloor m then groundSpeed m else airSpeed m);
          forwardVector = normalize_v (direction\<lparr>vy := 0\<rparr>)
      in m\<lparr>playerVelocity := add (playerVelocity m) (multiplyScalar forwardVector (- speedDelta))\<rparr>)"

definition executeLeftMovement_cd ::
  "real \<Rightarrow> Vector3 \<Rightarrow> Vector3 \<Rightarrow> PlayerModel \<Rightarrow> PlayerModel" where
  "executeLeftMovement_cd deltaTime direction up m =
     (let speedDelta = deltaTime * (if playerOnFloor m then groundSpeed m else airSpeed m);
          sideVector = cross (normalize_v (direction\<lparr>vy := 0\<rparr>)) up
      in m\<lparr>playerVelocity := add (playerVelocity m) (multiplyScalar sideVector (- speedDelta))\<rparr>)"

definition executeRightMovement_cd ::
  "real \<Rightarrow> Vector3 \<Rightarrow> Vector3 \<Rightarrow> PlayerModel \<Rightarrow> PlayerModel" where
  "executeRightMovement_cd deltaTime direction up m =
     (let speedDelta = deltaTime * (if playerOnFloor m then groundSpeed m else airSpeed m);
          sideVector = cross (normalize_v (direction\<lparr>vy := 0\<rparr>)) up
      in m\<lparr>playerVelocity := add (playerVelocity m) (multiplyScalar sideVector speedDelta)\<rparr>)"

definition executeJump_cd :: "PlayerModel \<Rightarrow> PlayerModel" where
  "executeJump_cd m =
     (if playerOnFloor m
      then m\<lparr>playerVelocity := (playerVelocity m)\<lparr>vy := jumpForce m\<rparr>\<rparr>
      else m)"

definition getColliderPosition_cd :: "PlayerModel \<Rightarrow> Vector3" where
  "getColliderPosition_cd m = c_end (playerCollider m)"

section \<open>The camera-driven PlayerCamera\<close>

text \<open>
  \<open>src/scenes/gameCameraDriven/PlayerCamera.ts\<close>. The key map \<open>keyStates\<close> has an entry only
  for keys that had an event; a missing entry reads as \<open>undefined\<close>, which every test of a
  flag treats as false.
\<close>

type_synonym KeyStates = "string \<rightharpoonup> bool"

definition pressed :: "KeyStates \<Rightarrow> string \<Rightarrow> bool" where
  "pressed keyStates k = (keyStates k = Some True)"

record MoveState =
  forward :: bool
  backward :: bool
  left :: bool
  right :: bool
  jump :: bool

definition MoveState_new :: MoveState where
  "MoveState_new = \<lparr>forward = False, backward = False, left = False, right = False, jump = False\<rparr>"

text \<open>
  The three.js camera: its position, its Euler angles (\<open>rotation.order = 'YXZ'\<close>) and its up
  vector. The camera has no parent, so \<open>getWorldDirection\<close> is the negated third column of
  the rotation matrix of the Euler angles, normalized.
\<close>

record Camera =
  camera_position :: Vector3
  camera_rotation :: Vector3
  camera_up :: Vector3

definition getWorldDirection :: "Camera \<Rightarrow> Vector3" where
  "getWorldDirection cam =
     (let a = cos (vx (camera_rotation cam)); b = sin (vx (camera_rotation cam));
          c = cos (vy (camera_rotation cam)); d = sin (vy (camera_rotation cam))
      in normalize_v \<lparr>vx = - (a * d), vy = - (- b), vz = - (a * c)\<rparr>)"

text \<open>
  The \<open>PlayerCamera\<close> object holds a reference to the scene's \<open>PlayerModel\<close>; the scene reaches
  the same object through its own variable. The model keeps the one \<open>PlayerModel\<close> inside
  the \<open>PlayerCamera\<close> record. In \<open>processMovement\<close> the movement commands mutate that
  \<open>PlayerModel\<close> only, so it is threaded through them as \<open>m0\<close> to \<open>m4\<close>.
\<close>

record PlayerCamera =
  camera :: Camera
  playerModel :: PlayerModel
  mouseSensitivity :: real
  cameraOffset :: Vector3
  moveState_cam :: MoveState

definition updateCameraPosition :: "PlayerCamera \<Rightarrow> PlayerCamera" where
  "updateCameraPosition pc =
     pc\<lparr>camera := (camera pc)\<lparr>camera_position := getColliderPosition_cd (playerModel pc)\<rparr>\<rparr>"

definition resetCameraRotation :: "PlayerCamera \<Rightarrow> PlayerCamera" where
  "resetCameraRotation pc = pc\<lparr>camera := (camera pc)\<lparr>camera_rotation := Vector3_new 0 0 0\<rparr>\<rparr>"

definition updateMovementState_cam :: "KeyStates \<Rightarrow> PlayerCamera \<Rightarrow> PlayerCamera" where
  "updateMovementState_cam keyStates pc =
     pc\<lparr>moveState_cam :=
          \<lparr>forward = pressed keyStates ''KeyW'',
           backward = pressed keyStates ''KeyS'',
           left = pressed keyStates ''KeyA'',
           right = pressed keyStates ''KeyD'',
           jump = pressed keyStates ''Space''\<rparr>\<rparr>"

definition getCameraDirection :: "PlayerCamera \<Rightarrow> Vector3" where
  "getCameraDirection pc = normalize_v ((getWorldDirection (camera pc))\<lparr>vy := 0\<rparr>)"

definition processMovement_cam :: "KeyStates \<Rightarrow> real \<Rightarrow> PlayerCamera \<Rightarrow> PlayerCamera" where
  "processMovement_cam keyStates deltaTime pc =
     (let pc0 = updateMovementState_cam keyStates pc;
          cameraDirection = getCameraDirection pc0;
          cameraUp = camera_up (camera pc0);
          m0 = playerModel pc0;
          m1 = (if forward (moveState_cam pc0)
                then executeForwardMovement_cd deltaTime cameraDirection m0 else m0);
          m2 = (if backward (moveState_cam pc0)
                then executeBackwardMovement_cd deltaTime cameraDirection m1 else m1);
          m3 = (if left (moveState_cam pc0)
                then executeLeftMovement_cd deltaTime cameraDirection cameraUp m2 else m2);
          m4 = (if right (moveState_cam pc0)
                then executeRightMovement_cd deltaTime cameraDirection cameraUp m3 else m3)
      in if jump (moveState_cam pc0)
         then pc0\<lparr>playerModel := executeJump_cd m4,
                  moveState_cam := (moveState_cam pc0)\<lparr>jump := False\<rparr>\<rparr>
         else pc0\<lparr>playerModel := m4\<rparr>)"

text \<open>
  \<open>resetToSafePosition\<close> resets the camera rotation and moves the camera to the collider;
  the rest of it writes the render mesh.
\<close>

definition resetToSafePosition :: "PlayerCamera \<Rightarrow> PlayerCamera" where
  "resetToSafePosition pc = updateCameraPosition (resetCameraRotation pc)"

subsection \<open>The camera-driven scene\<close>

text \<open>\<open>src/scenes/gameCameraDriven/gameSceneCameraDriven.ts\<close>: the steps of one substep of \<open>render\<close>.\<close>

definition GRAVITY :: real where
  "GRAVITY = 30"

definition controls_cd :: "KeyStates \<Rightarrow> real \<Rightarrow> PlayerCamera \<Rightarrow> PlayerCamera" where
  "controls_cd keyStates deltaTime pc = processMovement_cam keyStates deltaTime pc"

definition updatePlayer_cd :: "Octree \<Rightarrow> real \<Rightarrow> PlayerCamera \<Rightarrow> PlayerCamera" where
  "updatePlayer_cd worldOctree deltaTime pc =
     updateCameraPosition
       (pc\<lparr>playerModel :=
            checkCollisions_cd worldOctree (updatePhysics_cd deltaTime GRAVITY (playerModel pc))\<rparr>)"

definition teleportPlayerIfOob_cd :: "PlayerCamera \<Rightarrow> PlayerCamera" where
  "teleportPlayerIfOob_cd pc =
     (if vy (getColliderPosition_cd (playerModel pc)) \<le> - 25
      then resetToSafePosition (pc\<lparr>playerModel := resetPosition_cd (playerModel pc)\<rparr>)
      else pc)"

section \<open>The character-driven PlayerModel\<close>

text \<open>
  \<open>src/unnamed/part_001\<close>: the class has the fields of the camera-driven class, the facing
  direction and its own move state. Its methods are translated from its own text.
\<close>

record PlayerModelPD = PlayerModel +
  playerDirection :: Vector3
  moveState :: MoveState

definition PlayerModelPD_new :: PlayerModelPD where
  "PlayerModelPD_new =
     \<lparr>playerCollider =
        \<lparr>c_start = Vector3_new 0 0 0, c_end = Vector3_new 0 (18 / 10) 0, radius = 35 / 100\<rparr>,
      playerVelocity = Vector3_zero,
      playerOnFloor = False,
      groundSpeed = 25,
      airSpeed = 8,
      jumpForce = 15,
      dampingFactor = 4,
      playerDirection = Vector3_new 0 0 1,
      moveState = MoveState_new\<rparr>"

definition updateMovementState_pd :: "KeyStates \<Rightarrow> PlayerModelPD \<Rightarrow> PlayerModelPD" where
  "updateMovementState_pd keyStates m =
     m\<lparr>moveState :=
         \<lparr>forward = pressed keyStates ''KeyW'',
          backward = pressed keyStates ''KeyS'',
          left = pressed keyStates ''KeyA'',
          right = pressed keyStates ''KeyD'',
          jump = pressed keyStates ''Space''\<rparr>\<rparr>"

definition executeJump_pd :: "PlayerModelPD \<Rightarrow> PlayerModelPD" where
  "executeJump_pd m =
     (if playerOnFloor m
      then m\<lparr>playerVelocity := (playerVelocity m)\<lparr>vy := jumpForce m\<rparr>\<rparr>
      else m)"

text \<open>
  \<open>processMovement\<close> in the order of its text: the turn (lines 203 to 219), the move vector
  (lines 222 to 235), its application to the velocity (lines 238 to 242), the jump.
\<close>

definition turn_pd :: "real \<Rightarrow> PlayerModelPD \<Rightarrow> PlayerModelPD" where
  "turn_pd deltaTime m =
     (let rotationSpeed = (15 / 10) * deltaTime;
          m1 = (if left (moveState m)
                then m\<lparr>playerDirection :=
                       normalize_v (applyMatrix4 (playerDirection m) (makeRotationY rotationSpeed))\<rparr>
                else m)
      in if right (moveState m1)
         then m1\<lparr>playerDirection :=
                normalize_v (applyMatrix4 (playerDirection m1) (makeRotationY (- rotationSpeed)))\<rparr>
         else m1)"

definition moveDirection_pd :: "PlayerModelPD \<Rightarrow> Vector3 \<times> bool" where
  "moveDirection_pd m =
     (let (moveDirection, hasMovement) = (Vector3_zero, False);
          (moveDirection1, hasMovement1) =
            (if forward (moveState m)
             then (add moveDirection (playerDirection m), True)
             else (moveDirection, hasMovement))
      in if backward (moveState m)
         then (sub moveDirection1 (playerDirection m), True)
         else (moveDirection1, hasMovement1))"

definition applyMovement_pd :: "real \<Rightarrow> PlayerModelPD \<Rightarrow> PlayerModelPD" where
  "applyMovement_pd deltaTime m =
     (let speedDelta = deltaTime * (if playerOnFloor m then groundSpeed m else airSpeed m);
          (moveDirection, hasMovement) = moveDirection_pd m
      in if hasMovement
         then m\<lparr>playerVelocity :=
                add (playerVelocity m)
                  (multiplyScalar ((normalize_v moveDirection)\<lparr>vy := 0\<rparr>) speedDelta)\<rparr>
         else m)"

definition processMovement_pd :: "real \<Rightarrow> PlayerModelPD \<Rightarrow> PlayerModelPD" where
  "processMovement_pd deltaTime m =
     (let m1 = applyMovement_pd deltaTime (turn_pd deltaTime m)
      in if jump (moveState m1) then executeJump_pd m1 else m1)"

definition translate_pd :: "Vector3 \<Rightarrow> PlayerModelPD \<Rightarrow> PlayerModelPD" where
  "translate_pd vec3 m = m\<lparr>playerCollider := Capsule_translate (playerCollider m) vec3\<rparr>"

definition checkCollisions_pd :: "Octree \<Rightarrow> PlayerModelPD \<Rightarrow> PlayerModelPD" where
  "checkCollisions_pd worldOctree m =
     (let result = worldOctree (playerCollider m);
          m1 = m\<lparr>playerOnFloor := False\<rparr>
      in case result of
           None \<Rightarrow> m1
         | Some r \<Rightarrow>
             (let m2 = m1\<lparr>playerOnFloor := (vy (normal r) > 0)\<rparr>;
                  m3 = (if \<not> playerOnFloor m2
                        then m2\<lparr>playerVelocity :=
                               addScaledVector (playerVelocity m2) (normal r)
                                 (- dot (normal r) (playerVelocity m2))\<rparr>
                        else m2)
              in if depth r \<ge> 1 / 10 ^ 10
                 then translate_pd (multiplyScalar (normal r) (depth r)) m3
                 else m3))"

definition updatePhysics_pd :: "real \<Rightarrow> real \<Rightarrow> PlayerModelPD \<Rightarrow> PlayerModelPD" where
  "updatePhysics_pd deltaTime gravity m =
     (let damping = exp (- dampingFactor m * deltaTime) - 1;
          (m1, damping1) =
            (if \<not> playerOnFloor m
             then (m\<lparr>playerVelocity :=
                       (playerVelocity m)\<lparr>vy := vy (playerVelocity m) - gravity * deltaTime\<rparr>\<rparr>,
                   damping * (1 / 10))
             else (m, damping));
          m2 = m1\<lparr>playerVelocity :=
                    addScaledVector (playerVelocity m1) (playerVelocity m1) damping1\<rparr>;
          deltaPosition = multiplyScalar (playerVelocity m2) deltaTime
      in translate_pd deltaPosition m2)"

definition resetPosition_pd :: "PlayerModelPD \<Rightarrow> PlayerModelPD" where
  "resetPosition_pd m =
     m\<lparr>playerCollider :=
         \<lparr>c_start = Vector3_new 0 0 0, c_end = Vector3_new 0 (18 / 10) 0, radius = 35 / 100\<rparr>,
       playerVelocity := Vector3_new 0 0 0\<rparr>"

definition getColliderPosition_pd :: "PlayerModelPD \<Rightarrow> Vector3" where
  "getColliderPosition_pd m = c_end (playerCollider m)"

subsection \<open>The follow camera and the character-driven scene\<close>

text \<open>
  \<open>src/unnamed/part_000\<close> and \<open>src/scenes/gamePlayerDriven/gameScenePlayerDriven.ts\<close>. Of the
  follow camera only the two orbit angles are kept: its \<open>update\<close> reads the player and
  writes the view transform.
\<close>

record FollowCamera =
  cameraAngleY :: real
  cameraAngleX :: real

definition resetCameraAngles :: "FollowCamera \<Rightarrow> FollowCamera" where
  "resetCameraAngles fc = fc\<lparr>cameraAngleY := 0, cameraAngleX := 1 / 10\<rparr>"

record ScenePD =
  playerModel_pd :: PlayerModelPD
  playerCamera_pd :: FollowCamera

definition controls_pd :: "KeyStates \<Rightarrow> real \<Rightarrow> ScenePD \<Rightarrow> ScenePD" where
  "controls_pd keyStates deltaTime sc =
     sc\<lparr>playerModel_pd :=
          processMovement_pd deltaTime (updateMovementState_pd keyStates (playerModel_pd sc))\<rparr>"

definition updatePlayer_pd :: "Octree \<Rightarrow> real \<Rightarrow> ScenePD \<Rightarrow> ScenePD" where
  "updatePlayer_pd worldOctree deltaTime sc =
     sc\<lparr>playerModel_pd :=
          checkCollisions_pd worldOctree (updatePhysics_pd deltaTime GRAVITY (playerModel_pd sc))\<rparr>"

definition teleportPlayerIfOob_pd :: "ScenePD \<Rightarrow> ScenePD" where
  "teleportPlayerIfOob_pd sc =
     (if vy (getColliderPosition_pd (playerModel_pd sc)) \<le> - 25
      then sc\<lparr>playerModel_pd := resetPosition_pd (playerModel_pd sc),
              playerCamera_pd := resetCameraAngles (playerCamera_pd sc)\<rparr>
      else sc)"

section \<open>The basic game scene\<close>

text \<open>
  \<open>src/scenes/game/gameScene.ts\<close> keeps the player in closure variables and has the physics
  inline, with the damping coefficient 4 and the gravity 30 written as constants.
\<close>

record GameScene =
  gs_playerOnFloor :: bool
  gs_playerCollider :: Capsule
  gs_playerVelocity :: Vector3
  gs_camera_position :: Vector3

definition playerCollisions :: "Octree \<Rightarrow> GameScene \<Rightarrow> GameScene" where
  "playerCollisions worldOctree g =
     (let result = worldOctree (gs_playerCollider g);
          g1 = g\<lparr>gs_playerOnFloor := False\<rparr>
      in case result of
           None \<Rightarrow> g1
         | Some r \<Rightarrow>
             (let g2 = g1\<lparr>gs_playerOnFloor := (vy (normal r) > 0)\<rparr>;
                  g3 = (if \<not> gs_playerOnFloor g2
                        then g2\<lparr>gs_playerVelocity :=
                               addScaledVector (gs_playerVelocity g2) (normal r)
                                 (- dot (normal r) (gs_playerVelocity g2))\<rparr>
                        else g2)
              in if depth r \<ge> 1 / 10 ^ 10
                 then g3\<lparr>gs_playerCollider :=
                        Capsule_translate (gs_playerCollider g3)
                          (multiplyScalar (normal r) (depth r))\<rparr>
                 else g3))"

definition updatePlayer :: "Octree \<Rightarrow> real \<Rightarrow> GameScene \<Rightarrow> GameScene" where
  "updatePlayer worldOctree deltaTime g =
     (let damping = exp (- 4 * deltaTime) - 1;
          (g1, damping1) =
            (if \<not> gs_playerOnFloor g
             then (g\<lparr>gs_playerVelocity :=
                       (gs_playerVelocity g)\<lparr>vy := vy (gs_playerVelocity g) - GRAVITY * deltaTime\<rparr>\<rparr>,
                   damping * (1 / 10))
             else (g, damping));
          g2 = g1\<lparr>gs_playerVelocity :=
                    addScaledVector (gs_playerVelocity g1) (gs_playerVelocity g1) damping1\<rparr>;
          deltaPosition = multiplyScalar (gs_playerVelocity g2) deltaTime;
          g3 = g2\<lparr>gs_playerCollider := Capsule_translate (gs_playerCollider g2) deltaPosition\<rparr>;
          g4 = playerCollisions worldOctree g3
      in g4\<lparr>gs_camera_position := c_end (gs_playerCollider g4)\<rparr>)"

section \<open>Notions of the specification\<close>

text \<open>
  The factor by which the specification says one damping step multiplies the velocity, the
  velocity that step is applied to, and what it means that no component is reversed or
  grows.
\<close>

definition damping_multiplier :: "bool \<Rightarrow> real \<Rightarrow> real" where
  "damping_multiplier onFloor dt =
     (if onFloor then exp (- 4 * dt) else 1 + (1 / 10) * (exp (- 4 * dt) - 1))"

definition before_damping :: "bool \<Rightarrow> real \<Rightarrow> real \<Rightarrow> Vector3 \<Rightarrow> Vector3" where
  "before_damping onFloor dt g v = (if onFloor then v else v\<lparr>vy := vy v - g * dt\<rparr>)"

definition no_reversal_no_growth :: "Vector3 \<Rightarrow> Vector3 \<Rightarrow> bool" where
  "no_reversal_no_growth v v' \<longleftrightarrow>
     sgn (vx v') = sgn (vx v) \<and> \<bar>vx v'\<bar> \<le> \<bar>vx v\<bar> \<and>
     sgn (vy v') = sgn (vy v) \<and> \<bar>vy v'\<bar> \<le> \<bar>vy v\<bar> \<and>
     sgn (vz v') = sgn (vz v) \<and> \<bar>vz v'\<bar> \<le> \<bar>vz v\<bar>"

text \<open>The part of each state that the three copies of the physics have in common.\<close>

definition core_cd :: "PlayerModel \<Rightarrow> Vector3 \<times> Capsule \<times> bool" where
  "core_cd m = (playerVelocity m, playerCollider m, playerOnFloor m)"

definition core_pd :: "PlayerModelPD \<Rightarrow> Vector3 \<times> Capsule \<times> bool" where
  "core_pd m = (playerVelocity m, playerCollider m, playerOnFloor m)"

definition core_gs :: "GameScene \<Rightarrow> Vector3 \<times> Capsule \<times> bool" where
  "core_gs g = (gs_playerVelocity g, gs_playerCollider g, gs_playerOnFloor g)"

text \<open>The rotation about the vertical axis by an angle, as the specification means it.\<close>

definition rotate_about_vertical :: "real \<Rightarrow> Vector3 \<Rightarrow> Vector3" where
  "rotate_about_vertical theta v =
     \<lparr>vx = vx v * cos theta + vz v * sin theta,
      vy = vy v,
      vz = vz v * cos theta - vx v * sin theta\<rparr>"

section \<open>Sample states\<close>

text \<open>
  States right after construction with a chosen velocity and floor flag, a camera at the
  collider, a world that is a floor everywhere, and a key map with the space key held.
\<close>

definition sample_cd :: "Vector3 \<Rightarrow> bool \<Rightarrow> PlayerModel" where
  "sample_cd v onFloor = PlayerModel_new\<lparr>playerVelocity := v, playerOnFloor := onFloor\<rparr>"

definition sample_pd :: "Vector3 \<Rightarrow> bool \<Rightarrow> MoveState \<Rightarrow> PlayerModelPD" where
  "sample_pd v onFloor ms =
     PlayerModelPD_new\<lparr>playerVelocity := v, playerOnFloor := onFloor, moveState := ms\<rparr>"

definition sample_gs :: "Vector3 \<Rightarrow> bool \<Rightarrow> GameScene" where
  "sample_gs v onFloor =
     \<lparr>gs_playerOnFloor = onFloor, gs_playerCollider = playerCollider PlayerModel_new,
      gs_playerVelocity = v, gs_camera_position = Vector3_zero\<rparr>"

definition sample_camera :: "PlayerModel \<Rightarrow> PlayerCamera" where
  "sample_camera m =
     \<lparr>camera = \<lparr>camera_position = getColliderPosition_cd m,
                 camera_rotation = Vector3_new 0 0 0,
                 camera_up = Vector3_new 0 1 0\<rparr>,
      playerModel = m,
      mouseSensitivity = 500,
      cameraOffset = Vector3_new 0 (8 / 10) 0,
      moveState_cam = MoveState_new\<rparr>"

definition ground :: Octree where
  "ground = (\<lambda>c. Some \<lparr>normal = \<lparr>vx = 0, vy = 1, vz = 0\<rparr>, depth = 0\<rparr>)"

definition space_held :: KeyStates where
  "space_held = [''Space'' \<mapsto> True]"

section \<open>Collision resolution\<close>

lemma unit_dot_self: "vlength n = 1 \<Longrightarrow> dot n n = 1"
  by (simp add: vlength_def dot_def)

lemma slide_normal_zero:
  assumes "dot n n = 1"
  shows "dot n (addScaledVector v n (- dot n v)) = 0"
proof -
  have "dot n (addScaledVector v n (- dot n v)) = dot n v - dot n n * dot n v"
    by (simp add: dot_def addScaledVector_def algebra_simps)
  with assms show ?thesis by simp
qed

lemma slide_tangent_kept:
  assumes "dot t n = 0"
  shows "dot t (addScaledVector v n (- dot n v)) = dot t v"
proof -
  have "dot t (addScaledVector v n (- dot n v)) = dot t v - dot t n * dot n v"
    by (simp add: dot_def addScaledVector_def algebra_simps)
  with assms show ?thesis by simp
qed

lemma slide_as_sub: "addScaledVector v n (- dot n v) = sub v (multiplyScalar n (dot n v))"
  by (simp add: addScaledVector_def sub_def multiplyScalar_def)

lemma checkCollisions_cd_wall:
  assumes "worldOctree (playerCollider m) = Some r" "vy (normal r) \<le> 0" "depth r \<ge> 1 / 10 ^ 10"
  shows "checkCollisions_cd worldOctree m =
         m\<lparr>playerCollider := Capsule_translate (playerCollider m) (multiplyScalar (normal r) (depth r)),
           playerVelocity := addScaledVector (playerVelocity m) (normal r) (- dot (normal r) (playerVelocity m)),
           playerOnFloor := False\<rparr>"
  using assms by (simp add: checkCollisions_cd_def translate_cd_def Let_def)

lemma checkCollisions_pd_wall:
  assumes "worldOctree (playerCollider m) = Some r" "vy (normal r) \<le> 0" "depth r \<ge> 1 / 10 ^ 10"
  shows "checkCollisions_pd worldOctree m =
         m\<lparr>playerCollider := Capsule_translate (playerCollider m) (multiplyScalar (normal r) (depth r)),
           playerVelocity := addScaledVector (playerVelocity m) (normal r) (- dot (normal r) (playerVelocity m)),
           playerOnFloor := False\<rparr>"
  using assms by (simp add: checkCollisions_pd_def translate_pd_def Let_def)

lemma wall_response:
  assumes "vlength n = 1"
  shows "dot n (sub v (multiplyScalar n (dot n v))) = 0 \<and>
         (\<forall>t. dot t n = 0 \<longrightarrow> dot t (sub v (multiplyScalar n (dot n v))) = dot t v)"
  using assms
  by (simp add: slide_as_sub [symmetric] slide_normal_zero slide_tangent_kept unit_dot_self)

text \<open>
  Claim C1. When the intersection query returns a contact whose normal \<open>n\<close> is a unit vector
  with \<open>n.y \<le> 0\<close> and whose depth \<open>d\<close> is at least \<open>1e-10\<close>, \<open>checkCollisions\<close> (in both
  PlayerModel classes) moves both end points of the capsule by \<open>n * d\<close> and leaves its
  radius, and the new velocity is \<open>v - n * dot(n, v)\<close>: its component along \<open>n\<close> is zero and
  its product with every direction orthogonal to \<open>n\<close> is the one of \<open>v\<close>.
\<close>

theorem checkCollisions_wall_contact:
  assumes "worldOctree (playerCollider m) = Some \<lparr>normal = n, depth = d\<rparr>"
      and "worldOctree (playerCollider p) = Some \<lparr>normal = n, depth = d\<rparr>"
      and "vlength n = 1" and "vy n \<le> 0" and "d \<ge> 1 / 10 ^ 10"
  shows "(let c = playerCollider m; v = playerVelocity m;
              c' = playerCollider (checkCollisions_cd worldOctree m);
              v' = playerVelocity (checkCollisions_cd worldOctree m)
          in c_start c' = add (c_start c) (multiplyScalar n d) \<and>
             c_end c' = add (c_end c) (multiplyScalar n d) \<and>
             radius c' = radius c \<and>
             v' = sub v (multiplyScalar n (dot n v)) \<and>
             dot n v' = 0 \<and>
             (\<forall>t. dot t n = 0 \<longrightarrow> dot t v' = dot t v)) \<and>
         (let c = playerCollider p; v = playerVelocity p;
              c' = playerCollider (checkCollisions_pd worldOctree p);
              v' = playerVelocity (checkCollisions_pd worldOctree p)
          in c_start c' = add (c_start c) (multiplyScalar n d) \<and>
             c_end c' = add (c_end c) (multiplyScalar n d) \<and>
             radius c' = radius c \<and>
             v' = sub v (multiplyScalar n (dot n v)) \<and>
             dot n v' = 0 \<and>
             (\<forall>t. dot t n = 0 \<longrightarrow> dot t v' = dot t v))"
proof -
  have cd: "checkCollisions_cd worldOctree m =
      m\<lparr>playerCollider := Capsule_translate (playerCollider m) (multiplyScalar n d),
        playerVelocity := addScaledVector (playerVelocity m) n (- dot n (playerVelocity m)),
        playerOnFloor := False\<rparr>"
    using checkCollisions_cd_wall [of worldOctree m "\<lparr>normal = n, depth = d\<rparr>"] assms(1,4,5) by simp
  have pd: "checkCollisions_pd worldOctree p =
      p\<lparr>playerCollider := Capsule_translate (playerCollider p) (multiplyScalar n d),
        playerVelocity := addScaledVector (playerVelocity p) n (- dot n (playerVelocity p)),
        playerOnFloor := False\<rparr>"
    using checkCollisions_pd_wall [of worldOctree p "\<lparr>normal = n, depth = d\<rparr>"] assms(2,4,5) by simp
  show ?thesis
    unfolding Let_def cd pd
    by (simp add: Capsule_translate_def slide_as_sub wall_response [OF assms(3)])
qed

theorem checkCollisions_wall_contact_witness:
  "(let worldOctree = (\<lambda>c. Some \<lparr>normal = \<lparr>vx = 1, vy = 0, vz = 0\<rparr>, depth = 1 / 2\<rparr>);
        n = \<lparr>vx = 1, vy = 0, vz = 0\<rparr>;
        m = PlayerModel_new\<lparr>playerVelocity := \<lparr>vx = - 3, vy = 2, vz = 1\<rparr>\<rparr>;
        p = PlayerModelPD_new\<lparr>playerVelocity := \<lparr>vx = - 3, vy = 2, vz = 1\<rparr>\<rparr>
    in vlength n = 1 \<and> vy n \<le> 0 \<and> (1 / 2 :: real) \<ge> 1 / 10 ^ 10 \<and>
       playerCollider (checkCollisions_cd worldOctree m) =
         \<lparr>c_start = \<lparr>vx = 1 / 2, vy = 0, vz = 0\<rparr>,
          c_end = \<lparr>vx = 1 / 2, vy = 18 / 10, vz = 0\<rparr>, radius = 35 / 100\<rparr> \<and>
       playerVelocity (checkCollisions_cd worldOctree m) = \<lparr>vx = 0, vy = 2, vz = 1\<rparr> \<and>
       dot n (playerVelocity (checkCollisions_cd worldOctree m)) = 0 \<and>
       playerCollider (checkCollisions_pd worldOctree p) =
         \<lparr>c_start = \<lparr>vx = 1 / 2, vy = 0, vz = 0\<rparr>,
          c_end = \<lparr>vx = 1 / 2, vy = 18 / 10, vz = 0\<rparr>, radius = 35 / 100\<rparr> \<and>
       playerVelocity (checkCollisions_pd worldOctree p) = \<lparr>vx = 0, vy = 2, vz = 1\<rparr> \<and>
       dot n (playerVelocity (checkCollisions_pd worldOctree p)) = 0)"
  using checkCollisions_wall_contact
    [of "\<lambda>c. Some \<lparr>normal = \<lparr>vx = 1, vy = 0, vz = 0\<rparr>, depth = 1 / 2\<rparr>"
        "PlayerModel_new\<lparr>playerVelocity := \<lparr>vx = - 3, vy = 2, vz = 1\<rparr>\<rparr>"
        "\<lparr>vx = 1, vy = 0, vz = 0\<rparr>" "1 / 2"
        "PlayerModelPD_new\<lparr>playerVelocity := \<lparr>vx = - 3, vy = 2, vz = 1\<rparr>\<rparr>"]
  by (simp add: Let_def vlength_def PlayerModel_new_def PlayerModelPD_new_def Vector3_new_def
      add_def sub_def multiplyScalar_def dot_def Capsule.equality)

text \<open>
  Claim C3. Without a contact \<open>checkCollisions\<close> clears the floor flag and leaves the
  velocity and the collider as they were. With a contact whose normal has a positive
  vertical component it sets the floor flag and leaves the velocity as it was. The same
  holds for both PlayerModel classes and for \<open>playerCollisions\<close> of the basic game scene.
\<close>

theorem checkCollisions_no_contact_or_floor:
  "(worldOctree (playerCollider m) = None \<longrightarrow>
      playerOnFloor (checkCollisions_cd worldOctree m) = False \<and>
      playerVelocity (checkCollisions_cd worldOctree m) = playerVelocity m \<and>
      playerCollider (checkCollisions_cd worldOctree m) = playerCollider m) \<and>
   (\<forall>r. worldOctree (playerCollider m) = Some r \<and> vy (normal r) > 0 \<longrightarrow>
      playerOnFloor (checkCollisions_cd worldOctree m) = True \<and>
      playerVelocity (checkCollisions_cd worldOctree m) = playerVelocity m) \<and>
   (worldOctree (playerCollider p) = None \<longrightarrow>
      playerOnFloor (checkCollisions_pd worldOctree p) = False \<and>
      playerVelocity (checkCollisions_pd worldOctree p) = playerVelocity p \<and>
      playerCollider (checkCollisions_pd worldOctree p) = playerCollider p) \<and>
   (\<forall>r. worldOctree (playerCollider p) = Some r \<and> vy (normal r) > 0 \<longrightarrow>
      playerOnFloor (checkCollisions_pd worldOctree p) = True \<and>
      playerVelocity (checkCollisions_pd worldOctree p) = playerVelocity p) \<and>
   (worldOctree (gs_playerCollider g) = None \<longrightarrow>
      gs_playerOnFloor (playerCollisions worldOctree g) = False \<and>
      gs_playerVelocity (playerCollisions worldOctree g) = gs_playerVelocity g \<and>
      gs_playerCollider (playerCollisions worldOctree g) = gs_playerCollider g) \<and>
   (\<forall>r. worldOctree (gs_playerCollider g) = Some r \<and> vy (normal r) > 0 \<longrightarrow>
      gs_playerOnFloor (playerCollisions worldOctree g) = True \<and>
      gs_playerVelocity (playerCollisions worldOctree g) = gs_playerVelocity g)"
  by (simp add: checkCollisions_cd_def checkCollisions_pd_def playerCollisions_def
      translate_cd_def translate_pd_def Let_def)

theorem checkCollisions_no_contact_or_floor_witness:
  "(let none = (\<lambda>c. None) :: Octree;
        ground = (\<lambda>c. Some \<lparr>normal = \<lparr>vx = 0, vy = 1, vz = 0\<rparr>, depth = 1 / 4\<rparr>);
        v = \<lparr>vx = 1, vy = - 2, vz = 3\<rparr>;
        m = PlayerModel_new\<lparr>playerVelocity := v, playerOnFloor := True\<rparr>;
        p = PlayerModelPD_new\<lparr>playerVelocity := v, playerOnFloor := True\<rparr>;
        g = \<lparr>gs_playerOnFloor = True, gs_playerCollider = playerCollider m,
             gs_playerVelocity = v, gs_camera_position = Vector3_zero\<rparr>
    in none (playerCollider m) = None \<and>
       checkCollisions_cd none m = m\<lparr>playerOnFloor := False\<rparr> \<and>
       checkCollisions_pd none p = p\<lparr>playerOnFloor := False\<rparr> \<and>
       playerCollisions none g = g\<lparr>gs_playerOnFloor := False\<rparr> \<and>
       vy (normal (the (ground (playerCollider m)))) > 0 \<and>
       playerOnFloor (checkCollisions_cd ground (m\<lparr>playerOnFloor := False\<rparr>)) \<and>
       playerVelocity (checkCollisions_cd ground (m\<lparr>playerOnFloor := False\<rparr>)) = v \<and>
       playerOnFloor (checkCollisions_pd ground (p\<lparr>playerOnFloor := False\<rparr>)) \<and>
       playerVelocity (checkCollisions_pd ground (p\<lparr>playerOnFloor := False\<rparr>)) = v \<and>
       gs_playerOnFloor (playerCollisions ground (g\<lparr>gs_playerOnFloor := False\<rparr>)) \<and>
       gs_playerVelocity (playerCollisions ground (g\<lparr>gs_playerOnFloor := False\<rparr>)) = v)"
  using checkCollisions_no_contact_or_floor
    [of "\<lambda>c. None"
        "PlayerModel_new\<lparr>playerVelocity := \<lparr>vx = 1, vy = - 2, vz = 3\<rparr>, playerOnFloor := True\<rparr>"
        "PlayerModelPD_new\<lparr>playerVelocity := \<lparr>vx = 1, vy = - 2, vz = 3\<rparr>, playerOnFloor := True\<rparr>"
        "\<lparr>gs_playerOnFloor = True, gs_playerCollider = playerCollider PlayerModel_new,
          gs_playerVelocity = \<lparr>vx = 1, vy = - 2, vz = 3\<rparr>, gs_camera_position = Vector3_zero\<rparr>"]
    checkCollisions_no_contact_or_floor
    [of "\<lambda>c. Some \<lparr>normal = \<lparr>vx = 0, vy = 1, vz = 0\<rparr>, depth = 1 / 4\<rparr>"
        "PlayerModel_new\<lparr>playerVelocity := \<lparr>vx = 1, vy = - 2, vz = 3\<rparr>, playerOnFloor := False\<rparr>"
        "PlayerModelPD_new\<lparr>playerVelocity := \<lparr>vx = 1, vy = - 2, vz = 3\<rparr>, playerOnFloor := False\<rparr>"
        "\<lparr>gs_playerOnFloor = False, gs_playerCollider = playerCollider PlayerModel_new,
          gs_playerVelocity = \<lparr>vx = 1, vy = - 2, vz = 3\<rparr>, gs_camera_position = Vector3_zero\<rparr>"]
  by (simp add: Let_def checkCollisions_cd_def checkCollisions_pd_def playerCollisions_def
      translate_cd_def translate_pd_def)

section \<open>Velocity integration\<close>

lemma updatePhysics_cd_velocity:
  "playerVelocity (updatePhysics_cd deltaTime gravity m) =
     (if playerOnFloor m
      then addScaledVector (playerVelocity m) (playerVelocity m)
             (exp (- dampingFactor m * deltaTime) - 1)
      else addScaledVector
             ((playerVelocity m)\<lparr>vy := vy (playerVelocity m) - gravity * deltaTime\<rparr>)
             ((playerVelocity m)\<lparr>vy := vy (playerVelocity m) - gravity * deltaTime\<rparr>)
             ((exp (- dampingFactor m * deltaTime) - 1) * (1 / 10)))"
  by (simp add: updatePhysics_cd_def translate_cd_def Let_def)

lemma updatePhysics_pd_velocity:
  "playerVelocity (updatePhysics_pd deltaTime gravity m) =
     (if playerOnFloor m
      then addScaledVector (playerVelocity m) (playerVelocity m)
             (exp (- dampingFactor m * deltaTime) - 1)
      else addScaledVector
             ((playerVelocity m)\<lparr>vy := vy (playerVelocity m) - gravity * deltaTime\<rparr>)
             ((playerVelocity m)\<lparr>vy := vy (playerVelocity m) - gravity * deltaTime\<rparr>)
             ((exp (- dampingFactor m * deltaTime) - 1) * (1 / 10)))"
  by (simp add: updatePhysics_pd_def translate_pd_def Let_def)

text \<open>
  Claim C2. On the floor \<open>updatePhysics\<close> applies no gravity: the new vertical velocity is
  the old one with the damping \<open>exp(-dampingFactor * dt) - 1\<close> applied. Off the floor the
  vertical velocity is first decreased by \<open>g * dt\<close> and then damped with a tenth of that
  damping. This holds for every \<open>dt\<close>, in both PlayerModel classes.
\<close>

theorem updatePhysics_gravity_by_floor:
  "(playerOnFloor m \<longrightarrow>
      vy (playerVelocity (updatePhysics_cd dt g m)) =
        vy (playerVelocity m) + vy (playerVelocity m) * (exp (- dampingFactor m * dt) - 1)) \<and>
   (\<not> playerOnFloor m \<longrightarrow>
      vy (playerVelocity (updatePhysics_cd dt g m)) =
        (vy (playerVelocity m) - g * dt) +
        (vy (playerVelocity m) - g * dt) * ((exp (- dampingFactor m * dt) - 1) * (1 / 10))) \<and>
   (playerOnFloor p \<longrightarrow>
      vy (playerVelocity (updatePhysics_pd dt g p)) =
        vy (playerVelocity p) + vy (playerVelocity p) * (exp (- dampingFactor p * dt) - 1)) \<and>
   (\<not> playerOnFloor p \<longrightarrow>
      vy (playerVelocity (updatePhysics_pd dt g p)) =
        (vy (playerVelocity p) - g * dt) +
        (vy (playerVelocity p) - g * dt) * ((exp (- dampingFactor p * dt) - 1) * (1 / 10)))"
  by (simp add: updatePhysics_cd_velocity updatePhysics_pd_velocity addScaledVector_def)

theorem updatePhysics_gravity_by_floor_witness:
  "(let v = \<lparr>vx = 1, vy = 2, vz = 3\<rparr>;
        m = PlayerModel_new\<lparr>playerVelocity := v\<rparr>;
        p = PlayerModelPD_new\<lparr>playerVelocity := v\<rparr>
    in playerOnFloor (m\<lparr>playerOnFloor := True\<rparr>) \<and>
       vy (playerVelocity (updatePhysics_cd (1 / 4) 30 (m\<lparr>playerOnFloor := True\<rparr>))) =
         2 + 2 * (exp (- 1) - 1) \<and>
       vy (playerVelocity (updatePhysics_pd (1 / 4) 30 (p\<lparr>playerOnFloor := True\<rparr>))) =
         2 + 2 * (exp (- 1) - 1) \<and>
       \<not> playerOnFloor m \<and>
       vy (playerVelocity (updatePhysics_cd (1 / 4) 30 m)) =
         (2 - 30 * (1 / 4)) + (2 - 30 * (1 / 4)) * ((exp (- 1) - 1) * (1 / 10)) \<and>
       vy (playerVelocity (updatePhysics_pd (1 / 4) 30 p)) =
         (2 - 30 * (1 / 4)) + (2 - 30 * (1 / 4)) * ((exp (- 1) - 1) * (1 / 10)))"
  using updatePhysics_gravity_by_floor
    [of "PlayerModel_new\<lparr>playerVelocity := \<lparr>vx = 1, vy = 2, vz = 3\<rparr>, playerOnFloor := True\<rparr>"
        "1 / 4" 30
        "PlayerModelPD_new\<lparr>playerVelocity := \<lparr>vx = 1, vy = 2, vz = 3\<rparr>, playerOnFloor := True\<rparr>"]
    updatePhysics_gravity_by_floor
    [of "PlayerModel_new\<lparr>playerVelocity := \<lparr>vx = 1, vy = 2, vz = 3\<rparr>\<rparr>"
        "1 / 4" 30
        "PlayerModelPD_new\<lparr>playerVelocity := \<lparr>vx = 1, vy = 2, vz = 3\<rparr>\<rparr>"]
  by (simp add: Let_def PlayerModel_new_def PlayerModelPD_new_def)

lemma air_multiplier_range:
  fixes e :: real
  assumes "0 < e" "e < 1"
  shows "0 < 1 + (1 / 10) * (e - 1) \<and> 1 + (1 / 10) * (e - 1) < 1"
  using assms by (simp add: field_simps)

lemma damping_multiplier_range:
  assumes "0 < dt"
  shows "0 < damping_multiplier onFloor dt \<and> damping_multiplier onFloor dt < 1"
proof -
  have e: "0 < exp (- 4 * dt)" "exp (- 4 * dt) < 1"
    using assms by simp_all
  show ?thesis
  proof (cases onFloor)
    case True
    with e show ?thesis by (simp add: damping_multiplier_def)
  next
    case False
    with air_multiplier_range [OF e] show ?thesis
      by (simp only: damping_multiplier_def if_False)
  qed
qed

lemma scaled_component:
  fixes a f :: real
  assumes "0 < f" "f \<le> 1"
  shows "sgn (a * f) = sgn a \<and> \<bar>a * f\<bar> \<le> \<bar>a\<bar>"
proof
  show "sgn (a * f) = sgn a"
    using assms by (simp add: sgn_mult)
  have "\<bar>a * f\<bar> = \<bar>a\<bar> * f"
    using assms by (simp add: abs_mult)
  also have "\<dots> \<le> \<bar>a\<bar> * 1"
    using assms by (intro mult_left_mono) simp_all
  finally show "\<bar>a * f\<bar> \<le> \<bar>a\<bar>" by simp
qed

lemma scaled_vector:
  assumes "0 < f" "f \<le> 1"
  shows "no_reversal_no_growth v (multiplyScalar v f)"
  using scaled_component [OF assms]
  by (simp add: no_reversal_no_growth_def multiplyScalar_def)

lemma addScaled_self: "addScaledVector v v (f - 1) = multiplyScalar v f"
  by (simp add: addScaledVector_def multiplyScalar_def algebra_simps)

lemma damped_cd:
  assumes "dampingFactor m = 4"
  shows "playerVelocity (updatePhysics_cd dt g m) =
         multiplyScalar (before_damping (playerOnFloor m) dt g (playerVelocity m))
           (damping_multiplier (playerOnFloor m) dt)"
proof (cases "playerOnFloor m")
  case True
  then show ?thesis
    using assms addScaled_self [of "playerVelocity m" "exp (- 4 * dt)"]
    by (simp add: updatePhysics_cd_velocity before_damping_def damping_multiplier_def)
next
  case False
  have "(exp (- 4 * dt) - 1) * (1 / 10) = (1 + (1 / 10) * (exp (- 4 * dt) - 1)) - 1"
    by simp
  with False show ?thesis
    using assms
      addScaled_self [of "(playerVelocity m)\<lparr>vy := vy (playerVelocity m) - g * dt\<rparr>"
        "1 + (1 / 10) * (exp (- 4 * dt) - 1)"]
    by (simp add: updatePhysics_cd_velocity before_damping_def damping_multiplier_def)
qed

lemma damped_pd:
  assumes "dampingFactor m = 4"
  shows "playerVelocity (updatePhysics_pd dt g m) =
         multiplyScalar (before_damping (playerOnFloor m) dt g (playerVelocity m))
           (damping_multiplier (playerOnFloor m) dt)"
proof (cases "playerOnFloor m")
  case True
  then show ?thesis
    using assms addScaled_self [of "playerVelocity m" "exp (- 4 * dt)"]
    by (simp add: updatePhysics_pd_velocity before_damping_def damping_multiplier_def)
next
  case False
  have "(exp (- 4 * dt) - 1) * (1 / 10) = (1 + (1 / 10) * (exp (- 4 * dt) - 1)) - 1"
    by simp
  with False show ?thesis
    using assms
      addScaled_self [of "(playerVelocity m)\<lparr>vy := vy (playerVelocity m) - g * dt\<rparr>"
        "1 + (1 / 10) * (exp (- 4 * dt) - 1)"]
    by (simp add: updatePhysics_pd_velocity before_damping_def damping_multiplier_def)
qed

text \<open>
  Claim C9. With the damping coefficient 4 and \<open>0 < dt \<le> 0.01\<close>, the velocity after
  \<open>updatePhysics\<close> is the velocity after the gravity step multiplied by a factor
  (\<open>exp(-4 dt)\<close> on the floor, \<open>1 + 0.1 (exp(-4 dt) - 1)\<close> off it) that is positive and at
  most 1, so no component changes its sign or grows in magnitude. Both PlayerModel classes.
\<close>

theorem damping_keeps_sign:
  assumes "0 < dt" and "dt \<le> 1 / 100" and "dampingFactor m = 4" and "dampingFactor p = 4"
  shows "0 < damping_multiplier (playerOnFloor m) dt \<and>
         damping_multiplier (playerOnFloor m) dt \<le> 1 \<and>
         playerVelocity (updatePhysics_cd dt g m) =
           multiplyScalar (before_damping (playerOnFloor m) dt g (playerVelocity m))
             (damping_multiplier (playerOnFloor m) dt) \<and>
         no_reversal_no_growth (before_damping (playerOnFloor m) dt g (playerVelocity m))
           (playerVelocity (updatePhysics_cd dt g m)) \<and>
         0 < damping_multiplier (playerOnFloor p) dt \<and>
         damping_multiplier (playerOnFloor p) dt \<le> 1 \<and>
         playerVelocity (updatePhysics_pd dt g p) =
           multiplyScalar (before_damping (playerOnFloor p) dt g (playerVelocity p))
             (damping_multiplier (playerOnFloor p) dt) \<and>
         no_reversal_no_growth (before_damping (playerOnFloor p) dt g (playerVelocity p))
           (playerVelocity (updatePhysics_pd dt g p))"
proof -
  have rm: "0 < damping_multiplier (playerOnFloor m) dt" "damping_multiplier (playerOnFloor m) dt \<le> 1"
    using damping_multiplier_range [OF assms(1), of "playerOnFloor m"] by simp_all
  have rp: "0 < damping_multiplier (playerOnFloor p) dt" "damping_multiplier (playerOnFloor p) dt \<le> 1"
    using damping_multiplier_range [OF assms(1), of "playerOnFloor p"] by simp_all
  show ?thesis
    using rm rp scaled_vector [OF rm] scaled_vector [OF rp]
    by (simp add: damped_cd [OF assms(3)] damped_pd [OF assms(4)])
qed

theorem damping_keeps_sign_witness:
  "(let m = PlayerModel_new\<lparr>playerVelocity := \<lparr>vx = 5, vy = - 2, vz = 0\<rparr>, playerOnFloor := True\<rparr>;
        p = PlayerModelPD_new\<lparr>playerVelocity := \<lparr>vx = 5, vy = - 2, vz = 0\<rparr>\<rparr>
    in (0::real) < 1 / 100 \<and> dampingFactor m = 4 \<and> dampingFactor p = 4 \<and>
       damping_multiplier True (1 / 100) = exp (- (1 / 25)) \<and>
       0 < damping_multiplier True (1 / 100) \<and> damping_multiplier True (1 / 100) \<le> 1 \<and>
       playerVelocity (updatePhysics_cd (1 / 100) 30 m) =
         multiplyScalar \<lparr>vx = 5, vy = - 2, vz = 0\<rparr> (exp (- (1 / 25))) \<and>
       no_reversal_no_growth \<lparr>vx = 5, vy = - 2, vz = 0\<rparr>
         (playerVelocity (updatePhysics_cd (1 / 100) 30 m)) \<and>
       damping_multiplier False (1 / 100) = 1 + (1 / 10) * (exp (- (1 / 25)) - 1) \<and>
       0 < damping_multiplier False (1 / 100) \<and> damping_multiplier False (1 / 100) \<le> 1 \<and>
       playerVelocity (updatePhysics_pd (1 / 100) 30 p) =
         multiplyScalar \<lparr>vx = 5, vy = - 2 - 30 * (1 / 100), vz = 0\<rparr>
           (1 + (1 / 10) * (exp (- (1 / 25)) - 1)) \<and>
       no_reversal_no_growth \<lparr>vx = 5, vy = - 2 - 30 * (1 / 100), vz = 0\<rparr>
         (playerVelocity (updatePhysics_pd (1 / 100) 30 p)))"
  using damping_keeps_sign
    [of "1 / 100"
        "PlayerModel_new\<lparr>playerVelocity := \<lparr>vx = 5, vy = - 2, vz = 0\<rparr>, playerOnFloor := True\<rparr>"
        "PlayerModelPD_new\<lparr>playerVelocity := \<lparr>vx = 5, vy = - 2, vz = 0\<rparr>\<rparr>" 30]
  by (auto simp: Let_def PlayerModel_new_def PlayerModelPD_new_def before_damping_def
      damping_multiplier_def)

section \<open>Jump and reset\<close>

text \<open>
  Claim C7. On the floor \<open>executeJump\<close> overwrites the vertical velocity with the jump
  speed, 15 for the value the constructor gives \<open>jumpForce\<close>, and leaves the horizontal
  components and the collider; off the floor it changes nothing. Both PlayerModel classes.
\<close>

theorem executeJump_sets_or_skips:
  "(playerOnFloor m \<and> jumpForce m = 15 \<longrightarrow>
      playerVelocity (executeJump_cd m) = (playerVelocity m)\<lparr>vy := 15\<rparr> \<and>
      playerCollider (executeJump_cd m) = playerCollider m) \<and>
   (\<not> playerOnFloor m \<longrightarrow> executeJump_cd m = m) \<and>
   (playerOnFloor p \<and> jumpForce p = 15 \<longrightarrow>
      playerVelocity (executeJump_pd p) = (playerVelocity p)\<lparr>vy := 15\<rparr> \<and>
      playerCollider (executeJump_pd p) = playerCollider p) \<and>
   (\<not> playerOnFloor p \<longrightarrow> executeJump_pd p = p)"
  by (simp add: executeJump_cd_def executeJump_pd_def)

theorem executeJump_sets_or_skips_witness:
  "(let v = \<lparr>vx = 4, vy = 9, vz = - 1\<rparr>;
        m = PlayerModel_new\<lparr>playerVelocity := v\<rparr>;
        p = PlayerModelPD_new\<lparr>playerVelocity := v\<rparr>
    in playerOnFloor (m\<lparr>playerOnFloor := True\<rparr>) \<and> jumpForce m = 15 \<and>
       playerVelocity (executeJump_cd (m\<lparr>playerOnFloor := True\<rparr>)) = \<lparr>vx = 4, vy = 15, vz = - 1\<rparr> \<and>
       playerVelocity (executeJump_pd (p\<lparr>playerOnFloor := True\<rparr>)) = \<lparr>vx = 4, vy = 15, vz = - 1\<rparr> \<and>
       \<not> playerOnFloor m \<and> executeJump_cd m = m \<and> executeJump_pd p = p)"
  using executeJump_sets_or_skips
    [of "PlayerModel_new\<lparr>playerVelocity := \<lparr>vx = 4, vy = 9, vz = - 1\<rparr>, playerOnFloor := True\<rparr>"
        "PlayerModelPD_new\<lparr>playerVelocity := \<lparr>vx = 4, vy = 9, vz = - 1\<rparr>, playerOnFloor := True\<rparr>"]
    executeJump_sets_or_skips
    [of "PlayerModel_new\<lparr>playerVelocity := \<lparr>vx = 4, vy = 9, vz = - 1\<rparr>\<rparr>"
        "PlayerModelPD_new\<lparr>playerVelocity := \<lparr>vx = 4, vy = 9, vz = - 1\<rparr>\<rparr>"]
  by (simp add: Let_def PlayerModel_new_def PlayerModelPD_new_def)

text \<open>
  Claim C4. In both scenes, when the end point of the capsule is at or below \<open>-25\<close>, the
  teleport leaves the collider at the spawn segment (start \<open>(0, 0, 0)\<close>, end
  \<open>(0, 1.8, 0)\<close>, radius \<open>0.35\<close>) and the velocity at zero, whatever they were before.
\<close>

theorem teleport_resets_to_spawn:
  "(vy (getColliderPosition_cd (playerModel pc)) \<le> - 25 \<longrightarrow>
      playerCollider (playerModel (teleportPlayerIfOob_cd pc)) =
        \<lparr>c_start = \<lparr>vx = 0, vy = 0, vz = 0\<rparr>,
         c_end = \<lparr>vx = 0, vy = 18 / 10, vz = 0\<rparr>, radius = 35 / 100\<rparr> \<and>
      playerVelocity (playerModel (teleportPlayerIfOob_cd pc)) = \<lparr>vx = 0, vy = 0, vz = 0\<rparr>) \<and>
   (vy (getColliderPosition_pd (playerModel_pd sc)) \<le> - 25 \<longrightarrow>
      playerCollider (playerModel_pd (teleportPlayerIfOob_pd sc)) =
        \<lparr>c_start = \<lparr>vx = 0, vy = 0, vz = 0\<rparr>,
         c_end = \<lparr>vx = 0, vy = 18 / 10, vz = 0\<rparr>, radius = 35 / 100\<rparr> \<and>
      playerVelocity (playerModel_pd (teleportPlayerIfOob_pd sc)) = \<lparr>vx = 0, vy = 0, vz = 0\<rparr>)"
  by (simp add: teleportPlayerIfOob_cd_def teleportPlayerIfOob_pd_def resetToSafePosition_def
      updateCameraPosition_def resetCameraRotation_def resetPosition_cd_def resetPosition_pd_def
      Vector3_new_def)

theorem teleport_resets_to_spawn_witness:
  "(let fallen = \<lparr>c_start = \<lparr>vx = 7, vy = - 27, vz = 2\<rparr>,
                   c_end = \<lparr>vx = 7, vy = - 25, vz = 2\<rparr>, radius = 35 / 100\<rparr>;
        v = \<lparr>vx = 3, vy = - 40, vz = 1\<rparr>;
        pc = \<lparr>camera = \<lparr>camera_position = c_end fallen, camera_rotation = Vector3_zero,
                         camera_up = \<lparr>vx = 0, vy = 1, vz = 0\<rparr>\<rparr>,
              playerModel = PlayerModel_new\<lparr>playerCollider := fallen, playerVelocity := v\<rparr>,
              mouseSensitivity = 500, cameraOffset = \<lparr>vx = 0, vy = 8 / 10, vz = 0\<rparr>,
              moveState_cam = MoveState_new\<rparr>;
        sc = \<lparr>playerModel_pd = PlayerModelPD_new\<lparr>playerCollider := fallen, playerVelocity := v\<rparr>,
              playerCamera_pd = \<lparr>cameraAngleY = 0, cameraAngleX = 3 / 10\<rparr>\<rparr>
    in vy (getColliderPosition_cd (playerModel pc)) \<le> - 25 \<and>
       playerCollider (playerModel (teleportPlayerIfOob_cd pc)) = playerCollider PlayerModel_new \<and>
       playerVelocity (playerModel (teleportPlayerIfOob_cd pc)) = \<lparr>vx = 0, vy = 0, vz = 0\<rparr> \<and>
       vy (getColliderPosition_pd (playerModel_pd sc)) \<le> - 25 \<and>
       playerCollider (playerModel_pd (teleportPlayerIfOob_pd sc)) = playerCollider PlayerModel_new \<and>
       playerVelocity (playerModel_pd (teleportPlayerIfOob_pd sc)) = \<lparr>vx = 0, vy = 0, vz = 0\<rparr>)"
  using teleport_resets_to_spawn
    [of "\<lparr>camera = \<lparr>camera_position = \<lparr>vx = 7, vy = - 25, vz = 2\<rparr>, camera_rotation = Vector3_zero,
                         camera_up = \<lparr>vx = 0, vy = 1, vz = 0\<rparr>\<rparr>,
          playerModel = PlayerModel_new\<lparr>playerCollider :=
              \<lparr>c_start = \<lparr>vx = 7, vy = - 27, vz = 2\<rparr>,
               c_end = \<lparr>vx = 7, vy = - 25, vz = 2\<rparr>, radius = 35 / 100\<rparr>,
            playerVelocity := \<lparr>vx = 3, vy = - 40, vz = 1\<rparr>\<rparr>,
          mouseSensitivity = 500, cameraOffset = \<lparr>vx = 0, vy = 8 / 10, vz = 0\<rparr>,
          moveState_cam = MoveState_new\<rparr>"
        "\<lparr>playerModel_pd = PlayerModelPD_new\<lparr>playerCollider :=
              \<lparr>c_start = \<lparr>vx = 7, vy = - 27, vz = 2\<rparr>,
               c_end = \<lparr>vx = 7, vy = - 25, vz = 2\<rparr>, radius = 35 / 100\<rparr>,
            playerVelocity := \<lparr>vx = 3, vy = - 40, vz = 1\<rparr>\<rparr>,
          playerCamera_pd = \<lparr>cameraAngleY = 0, cameraAngleX = 3 / 10\<rparr>\<rparr>"]
  by (simp add: Let_def getColliderPosition_cd_def getColliderPosition_pd_def PlayerModel_new_def
      Vector3_new_def)

section \<open>Movement commands of the character-driven variant\<close>

text \<open>
  The rotation adds its angle to the yaw \<open>atan2(x, z)\<close> that \<open>getRotation\<close> reads off the
  facing direction.
\<close>

lemma rotate_about_vertical_yaw:
  "rotate_about_vertical theta \<lparr>vx = r * sin phi, vy = h, vz = r * cos phi\<rparr> =
     \<lparr>vx = r * sin (phi + theta), vy = h, vz = r * cos (phi + theta)\<rparr>"
  by (simp add: rotate_about_vertical_def sin_add cos_add algebra_simps)

lemma applyMatrix4_makeRotationY:
  "applyMatrix4 v (makeRotationY theta) = rotate_about_vertical theta v"
  by (simp add: applyMatrix4_def makeRotationY_def rotate_about_vertical_def Let_def)

lemma rotation_keeps_squares:
  fixes a b c s :: real
  assumes "s * s + c * c = 1"
  shows "(a * c + b * s) * (a * c + b * s) + (b * c - a * s) * (b * c - a * s) = a * a + b * b"
proof -
  have "(a * c + b * s) * (a * c + b * s) + (b * c - a * s) * (b * c - a * s) =
        (a * a + b * b) * (s * s + c * c)"
    by (simp add: algebra_simps)
  with assms show ?thesis by simp
qed

lemma vlength_rotate: "vlength (rotate_about_vertical theta v) = vlength v"
proof -
  have "(vx v * cos theta + vz v * sin theta) * (vx v * cos theta + vz v * sin theta) +
        (vz v * cos theta - vx v * sin theta) * (vz v * cos theta - vx v * sin theta) =
        vx v * vx v + vz v * vz v"
    by (rule rotation_keeps_squares) (simp add: power2_eq_square [symmetric])
  then have "(vx v * cos theta + vz v * sin theta) * (vx v * cos theta + vz v * sin theta) +
        vy v * vy v +
        (vz v * cos theta - vx v * sin theta) * (vz v * cos theta - vx v * sin theta) =
        vx v * vx v + vy v * vy v + vz v * vz v"
    by simp
  then show ?thesis
    by (simp add: vlength_def rotate_about_vertical_def)
qed

lemma normalize_unit: "vlength v = 1 \<Longrightarrow> normalize_v v = v"
  by (simp add: normalize_v_def normalize_divisor_def divideScalar_def multiplyScalar_def)

lemma turn_step_unit:
  assumes "vlength v = 1"
  shows "normalize_v (applyMatrix4 v (makeRotationY theta)) = rotate_about_vertical theta v"
    and "vlength (rotate_about_vertical theta v) = 1"
  using assms by (simp_all add: applyMatrix4_makeRotationY vlength_rotate normalize_unit)

lemma turn_pd_direction:
  assumes "vlength (playerDirection m) = 1"
  shows "playerDirection (turn_pd dt m) =
           (if right (moveState m) then rotate_about_vertical (- ((15 / 10) * dt)) else id)
             ((if left (moveState m) then rotate_about_vertical ((15 / 10) * dt) else id)
                (playerDirection m))"
  using turn_step_unit [OF assms]
    turn_step_unit [of "rotate_about_vertical ((15 / 10) * dt) (playerDirection m)"]
  by (simp add: turn_pd_def Let_def)

lemma processMovement_pd_direction:
  "playerDirection (processMovement_pd dt m) = playerDirection (turn_pd dt m)"
  by (simp add: processMovement_pd_def applyMovement_pd_def executeJump_pd_def Let_def
      split: prod.split)

text \<open>
  Claim C8. For a unit facing direction, \<open>processMovement\<close> of the character-driven
  PlayerModel rotates it about the vertical axis by \<open>+1.5 * dt\<close> when the left flag is set
  and then by \<open>-1.5 * dt\<close> when the right flag is set, and the result is a unit vector
  again: the renormalization divides by 1.
\<close>

theorem turn_rotates_facing_direction:
  assumes "vlength (playerDirection m) = 1"
  shows "playerDirection (processMovement_pd dt m) =
           (if right (moveState m) then rotate_about_vertical (- ((15 / 10) * dt)) else id)
             ((if left (moveState m) then rotate_about_vertical ((15 / 10) * dt) else id)
                (playerDirection m)) \<and>
         vlength (playerDirection (processMovement_pd dt m)) = 1"
  using assms
  by (simp add: processMovement_pd_direction turn_pd_direction vlength_rotate)

theorem turn_rotates_facing_direction_witness:
  "(let turn_left = \<lparr>forward = False, backward = False, left = True, right = False, jump = False\<rparr>;
        turn_right = \<lparr>forward = False, backward = False, left = False, right = True, jump = False\<rparr>;
        l = sample_pd Vector3_zero True turn_left;
        r = sample_pd Vector3_zero True turn_right
    in playerDirection l = \<lparr>vx = 0, vy = 0, vz = 1\<rparr> \<and> vlength (playerDirection l) = 1 \<and>
       playerDirection (processMovement_pd 1 l) = \<lparr>vx = sin (3 / 2), vy = 0, vz = cos (3 / 2)\<rparr> \<and>
       vlength (playerDirection (processMovement_pd 1 l)) = 1 \<and>
       playerDirection r = \<lparr>vx = 0, vy = 0, vz = 1\<rparr> \<and> vlength (playerDirection r) = 1 \<and>
       playerDirection (processMovement_pd 1 r) = \<lparr>vx = - sin (3 / 2), vy = 0, vz = cos (3 / 2)\<rparr> \<and>
       vlength (playerDirection (processMovement_pd 1 r)) = 1)"
proof -
  define l where "l = sample_pd Vector3_zero True
    \<lparr>forward = False, backward = False, left = True, right = False, jump = False\<rparr>"
  define r where "r = sample_pd Vector3_zero True
    \<lparr>forward = False, backward = False, left = False, right = True, jump = False\<rparr>"
  have dl: "playerDirection l = \<lparr>vx = 0, vy = 0, vz = 1\<rparr>" "left (moveState l)" "\<not> right (moveState l)"
    and dr: "playerDirection r = \<lparr>vx = 0, vy = 0, vz = 1\<rparr>" "\<not> left (moveState r)" "right (moveState r)"
    by (simp_all add: l_def r_def sample_pd_def PlayerModelPD_new_def Vector3_new_def)
  have ul: "vlength (playerDirection l) = 1" and ur: "vlength (playerDirection r) = 1"
    by (simp_all add: dl dr vlength_def)
  show ?thesis
    unfolding Let_def l_def [symmetric] r_def [symmetric]
    using ul ur turn_rotates_facing_direction [OF ul, of 1]
      turn_rotates_facing_direction [OF ur, of 1]
    by (auto simp: dl dr rotate_about_vertical_def)
qed

lemma moveDirection_pd_cancel:
  assumes "forward (moveState m)" and "backward (moveState m)"
  shows "moveDirection_pd m = (Vector3_zero, True)"
  using assms
  by (simp add: moveDirection_pd_def Vector3_zero_def Vector3_new_def add_def sub_def)

lemma normalize_zero:
  "normalize_divisor Vector3_zero = 1" "normalize_v Vector3_zero = Vector3_zero"
  by (simp_all add: normalize_v_def normalize_divisor_def divideScalar_def multiplyScalar_def
      vlength_def Vector3_zero_def Vector3_new_def)

lemma turn_pd_keeps:
  "moveState (turn_pd dt m) = moveState m"
  "playerVelocity (turn_pd dt m) = playerVelocity m"
  "playerOnFloor (turn_pd dt m) = playerOnFloor m"
  "jumpForce (turn_pd dt m) = jumpForce m"
  by (simp_all add: turn_pd_def Let_def)

lemma applyMovement_pd_cancel:
  assumes "forward (moveState m)" and "backward (moveState m)"
  shows "applyMovement_pd dt m = m"
proof -
  have "add (playerVelocity m) (multiplyScalar (Vector3_zero\<lparr>vy := 0\<rparr>) s) = playerVelocity m" for s
    by (simp add: Vector3_zero_def Vector3_new_def multiplyScalar_def add_def)
  then show ?thesis
    by (simp add: applyMovement_pd_def moveDirection_pd_cancel [OF assms] normalize_zero Let_def)
qed

text \<open>
  Claim C6. With the forward and the backward flag both set, for every facing direction
  and every \<open>dt\<close>, the move vector of \<open>processMovement\<close> is the zero vector, \<open>normalize\<close>
  divides it by 1 and not by its length 0 and returns the zero vector, and the velocity is
  unchanged by the movement step: after \<open>processMovement\<close> only the jump can have changed
  the vertical component.
\<close>

theorem opposite_keys_cancel:
  assumes "forward (moveState m)" and "backward (moveState m)"
  shows "fst (moveDirection_pd (turn_pd dt m)) = Vector3_zero \<and>
         normalize_divisor (fst (moveDirection_pd (turn_pd dt m))) \<noteq> 0 \<and>
         normalize_v (fst (moveDirection_pd (turn_pd dt m))) = Vector3_zero \<and>
         playerVelocity (applyMovement_pd dt (turn_pd dt m)) = playerVelocity m \<and>
         vx (playerVelocity (processMovement_pd dt m)) = vx (playerVelocity m) \<and>
         vz (playerVelocity (processMovement_pd dt m)) = vz (playerVelocity m) \<and>
         vy (playerVelocity (processMovement_pd dt m)) =
           (if jump (moveState m) \<and> playerOnFloor m then jumpForce m else vy (playerVelocity m))"
proof -
  have flags: "forward (moveState (turn_pd dt m))" "backward (moveState (turn_pd dt m))"
    using assms by (simp_all add: turn_pd_keeps)
  have md: "moveDirection_pd (turn_pd dt m) = (Vector3_zero, True)"
    by (rule moveDirection_pd_cancel [OF flags])
  have ap: "applyMovement_pd dt (turn_pd dt m) = turn_pd dt m"
    by (rule applyMovement_pd_cancel [OF flags])
  show ?thesis
    by (simp add: md ap normalize_zero processMovement_pd_def executeJump_pd_def turn_pd_keeps
        Let_def)
qed

theorem opposite_keys_cancel_witness:
  "(let ms = \<lparr>forward = True, backward = True, left = True, right = False, jump = False\<rparr>;
        v = \<lparr>vx = 2, vy = 0, vz = - 3\<rparr>;
        m = sample_pd v True ms
    in forward (moveState m) \<and> backward (moveState m) \<and>
       fst (moveDirection_pd (turn_pd (1 / 100) m)) = Vector3_zero \<and>
       normalize_divisor (fst (moveDirection_pd (turn_pd (1 / 100) m))) = 1 \<and>
       playerVelocity (processMovement_pd (1 / 100) m) = v)"
  using opposite_keys_cancel
    [of "sample_pd \<lparr>vx = 2, vy = 0, vz = - 3\<rparr> True
           \<lparr>forward = True, backward = True, left = True, right = False, jump = False\<rparr>" "1 / 100"]
  by (simp add: Let_def sample_pd_def normalize_zero Vector3.equality)

section \<open>Jump of the camera-driven variant\<close>

lemma execute_cd_keeps:
  "playerOnFloor (executeForwardMovement_cd dt d m) = playerOnFloor m"
  "playerOnFloor (executeBackwardMovement_cd dt d m) = playerOnFloor m"
  "playerOnFloor (executeLeftMovement_cd dt d u m) = playerOnFloor m"
  "playerOnFloor (executeRightMovement_cd dt d u m) = playerOnFloor m"
  "jumpForce (executeForwardMovement_cd dt d m) = jumpForce m"
  "jumpForce (executeBackwardMovement_cd dt d m) = jumpForce m"
  "jumpForce (executeLeftMovement_cd dt d u m) = jumpForce m"
  "jumpForce (executeRightMovement_cd dt d u m) = jumpForce m"
  by (simp_all add: executeForwardMovement_cd_def executeBackwardMovement_cd_def
      executeLeftMovement_cd_def executeRightMovement_cd_def Let_def)

lemma processMovement_cam_keeps:
  "playerOnFloor (playerModel (processMovement_cam keyStates dt pc)) =
     playerOnFloor (playerModel pc)"
  "jumpForce (playerModel (processMovement_cam keyStates dt pc)) = jumpForce (playerModel pc)"
  by (simp_all add: processMovement_cam_def updateMovementState_cam_def Let_def
      execute_cd_keeps executeJump_cd_def)

lemma processMovement_cam_jump:
  assumes "pressed keyStates ''Space''"
  shows "jump (moveState_cam (processMovement_cam keyStates dt pc)) = False"
    and "playerOnFloor (playerModel pc) \<Longrightarrow>
         vy (playerVelocity (playerModel (processMovement_cam keyStates dt pc))) =
           jumpForce (playerModel pc)"
  using assms
  by (simp_all add: processMovement_cam_def updateMovementState_cam_def Let_def
      execute_cd_keeps executeJump_cd_def)

text \<open>
  The move state stored before a call has no influence on the call: whatever the previous
  call left in the jump flag is replaced from the key map.
\<close>

lemma processMovement_cam_forgets_flags:
  "processMovement_cam keyStates dt (pc\<lparr>moveState_cam := ms\<rparr>) =
   processMovement_cam keyStates dt pc"
  by (simp add: processMovement_cam_def updateMovementState_cam_def getCameraDirection_def)

lemma updatePlayer_cd_on_ground:
  "playerOnFloor (playerModel (updatePlayer_cd ground dt pc)) = True"
  "jumpForce (playerModel (updatePlayer_cd ground dt pc)) = jumpForce (playerModel pc)"
  "playerVelocity (playerModel (updatePlayer_cd ground dt pc)) =
     playerVelocity (updatePhysics_cd dt GRAVITY (playerModel pc))"
  by (simp_all add: updatePlayer_cd_def updateCameraPosition_def checkCollisions_cd_def
      ground_def Let_def updatePhysics_cd_def translate_cd_def split: prod.split)

text \<open>
  Claim C5, as the code has it. \<open>processMovement\<close> of the camera-driven PlayerCamera clears
  its jump flag after a jump, but its first statement reads the flag from the key map again.
  With the space key held and the player on the floor, a substep later the jump fires a
  second time: the vertical velocity, damped below 15 by \<open>updatePhysics\<close>, is set to 15 again.
\<close>

theorem held_jump_fires_again:
  "(let pc0 = sample_camera (sample_cd Vector3_zero True);
        pc1 = controls_cd space_held (1 / 100) pc0;
        pc2 = updatePlayer_cd ground (1 / 100) pc1;
        pc3 = controls_cd space_held (1 / 100) pc2
    in pressed space_held ''Space'' \<and>
       playerOnFloor (playerModel pc0) \<and>
       vy (playerVelocity (playerModel pc0)) = 0 \<and>
       vy (playerVelocity (playerModel pc1)) = 15 \<and>
       \<not> jump (moveState_cam pc1) \<and>
       playerOnFloor (playerModel pc2) \<and>
       vy (playerVelocity (playerModel pc2)) = 15 * exp (- (1 / 25)) \<and>
       vy (playerVelocity (playerModel pc2)) < 15 \<and>
       vy (playerVelocity (playerModel pc3)) = 15)"
proof -
  define pc0 where "pc0 = sample_camera (sample_cd Vector3_zero True)"
  define pc1 where "pc1 = controls_cd space_held (1 / 100) pc0"
  define pc2 where "pc2 = updatePlayer_cd ground (1 / 100) pc1"
  define pc3 where "pc3 = controls_cd space_held (1 / 100) pc2"
  have key: "pressed space_held ''Space''"
    by (simp add: pressed_def space_held_def)
  have s0: "playerOnFloor (playerModel pc0)" "jumpForce (playerModel pc0) = 15"
    "vy (playerVelocity (playerModel pc0)) = 0" "dampingFactor (playerModel pc0) = 4"
    by (simp_all add: pc0_def sample_camera_def sample_cd_def PlayerModel_new_def
        Vector3_zero_def Vector3_new_def)
  have s1: "playerOnFloor (playerModel pc1)" "jumpForce (playerModel pc1) = 15"
    "vy (playerVelocity (playerModel pc1)) = 15" "\<not> jump (moveState_cam pc1)"
    using s0 processMovement_cam_jump [OF key, where dt = "1 / 100" and pc = pc0]
    by (simp_all add: pc1_def controls_cd_def processMovement_cam_keeps)
  have d1: "dampingFactor (playerModel pc1) = 4"
    using s0(4)
    by (simp add: pc1_def controls_cd_def processMovement_cam_def updateMovementState_cam_def
        Let_def executeForwardMovement_cd_def executeBackwardMovement_cd_def
        executeLeftMovement_cd_def executeRightMovement_cd_def executeJump_cd_def)
  have s2: "playerOnFloor (playerModel pc2)" "jumpForce (playerModel pc2) = 15"
    "vy (playerVelocity (playerModel pc2)) = 15 * exp (- (1 / 25))"
    using s1 d1
    by (simp_all add: pc2_def updatePlayer_cd_on_ground updatePhysics_cd_velocity
        addScaledVector_def algebra_simps)
  have lt: "15 * exp (- (1 / 25)) < (15::real)"
    by simp
  have s3: "vy (playerVelocity (playerModel pc3)) = 15"
    using s2 processMovement_cam_jump(2) [OF key, where dt = "1 / 100" and pc = pc2]
    by (simp add: pc3_def controls_cd_def)
  show ?thesis
    unfolding Let_def
    using key s0 s1 s2 s3 lt
    by (simp add: pc0_def pc1_def pc2_def pc3_def)
qed

section \<open>The three copies of the physics\<close>

text \<open>
  Claim C10. From states that agree on velocity, collider and floor flag, with the damping
  coefficient 4, the two PlayerModel classes compute the same velocity, collider and floor
  flag in \<open>updatePhysics\<close> (for every gravity) and in \<open>checkCollisions\<close>; \<open>playerCollisions\<close>
  of the basic game scene agrees with \<open>checkCollisions\<close>, and its \<open>updatePlayer\<close>, which has the
  gravity 30 built in, agrees with \<open>updatePhysics\<close> at that gravity followed by
  \<open>checkCollisions\<close>.
\<close>

theorem physics_core_duplicated:
  assumes "core_pd p = core_cd m" and "core_gs gs = core_cd m"
      and "dampingFactor m = 4" and "dampingFactor p = 4"
  shows "core_pd (updatePhysics_pd dt g p) = core_cd (updatePhysics_cd dt g m) \<and>
         core_pd (checkCollisions_pd worldOctree p) = core_cd (checkCollisions_cd worldOctree m) \<and>
         core_gs (playerCollisions worldOctree gs) = core_cd (checkCollisions_cd worldOctree m) \<and>
         core_gs (updatePlayer worldOctree dt gs) =
           core_cd (checkCollisions_cd worldOctree (updatePhysics_cd dt GRAVITY m)) \<and>
         core_gs (updatePlayer worldOctree dt gs) =
           core_pd (checkCollisions_pd worldOctree (updatePhysics_pd dt GRAVITY p))"
  using assms
  by (simp add: core_pd_def core_cd_def core_gs_def updatePhysics_pd_def updatePhysics_cd_def
      checkCollisions_pd_def checkCollisions_cd_def playerCollisions_def updatePlayer_def
      translate_cd_def translate_pd_def Let_def split: option.split)

theorem physics_core_duplicated_witness:
  "(let v = \<lparr>vx = 1, vy = - 4, vz = 2\<rparr>;
        m = sample_cd v False;
        p = sample_pd v False MoveState_new;
        gs = sample_gs v False
    in core_pd p = core_cd m \<and> core_gs gs = core_cd m \<and>
       dampingFactor m = 4 \<and> dampingFactor p = 4 \<and>
       core_pd (updatePhysics_pd (1 / 100) GRAVITY p) =
         core_cd (updatePhysics_cd (1 / 100) GRAVITY m) \<and>
       core_pd (checkCollisions_pd ground p) = core_cd (checkCollisions_cd ground m) \<and>
       core_gs (playerCollisions ground gs) = core_cd (checkCollisions_cd ground m) \<and>
       core_gs (updatePlayer ground (1 / 100) gs) =
         core_cd (checkCollisions_cd ground (updatePhysics_cd (1 / 100) GRAVITY m)) \<and>
       core_gs (updatePlayer ground (1 / 100) gs) =
         core_pd (checkCollisions_pd ground (updatePhysics_pd (1 / 100) GRAVITY p)))"
proof -
  define v where "v = \<lparr>vx = 1, vy = - 4, vz = 2 :: real\<rparr>"
  have h: "core_pd (sample_pd v False MoveState_new) = core_cd (sample_cd v False)"
    "core_gs (sample_gs v False) = core_cd (sample_cd v False)"
    "dampingFactor (sample_cd v False) = 4"
    "dampingFactor (sample_pd v False MoveState_new) = 4"
    by (simp_all add: core_pd_def core_cd_def core_gs_def sample_pd_def sample_cd_def
        sample_gs_def PlayerModel_new_def PlayerModelPD_new_def)
  show ?thesis
    unfolding Let_def v_def [symmetric]
    using h physics_core_duplicated [OF h, of "1 / 100" GRAVITY ground]
    by auto
qed

end
